theory Spec2Isabelle
  imports Complex_Main
begin

section \<open>JavaScript values\<close>

text \<open>
  The server is JavaScript. A string is a \<^typ>\<open>string\<close>, one \<^typ>\<open>char\<close> for each
  UTF-16 code unit below 256, so that \<^term>\<open>length s\<close> is the \<^verbatim>\<open>.length\<close> of the
  source. A number is \<^verbatim>\<open>NaN\<close>, an infinity or a finite value. \<open>Finite q\<close> stands for
  the binary64 value nearest to the rational \<open>q\<close>; the integers below \<open>2 ^ 53\<close> are such
  values themselves. \<open>binary64\<close> keeps the range of the format: a rational at or beyond
  the midpoint above the largest finite value (\<open>2 ^ 1024 - 2 ^ 970\<close>) is an infinity, and
  one at or below half the smallest positive value (\<open>2 ^ 1075\<close> under 1) is zero.
\<close>

datatype number = NaN | PosInfinity | NegInfinity | Finite rat

definition binary64 :: "rat \<Rightarrow> number" where
  "binary64 q =
     (if 2 ^ 1024 - 2 ^ 970 \<le> \<bar>q\<bar> then (if q < 0 then NegInfinity else PosInfinity)
      else if \<bar>q\<bar> \<le> 1 / 2 ^ 1075 then Finite 0
      else Finite q)"

datatype jsval = JUndefined | JNull | JString string | JNumber number

text \<open>A field of a JSON object that holds a string or is absent (\<^verbatim>\<open>undefined\<close>).\<close>

type_synonym field = "string option"

definition val :: "field \<Rightarrow> jsval" where
  "val f = (case f of None \<Rightarrow> JUndefined | Some s \<Rightarrow> JString s)"

text \<open>\<^verbatim>\<open>ToBoolean\<close>: what \<^verbatim>\<open>!x\<close>, \<^verbatim>\<open>x && y\<close>, \<^verbatim>\<open>x || y\<close> and \<^verbatim>\<open>x ? y : z\<close> test.\<close>

fun truthy :: "jsval \<Rightarrow> bool" where
  "truthy JUndefined = False"
| "truthy JNull = False"
| "truthy (JString s) = (s \<noteq> [])"
| "truthy (JNumber n) = (n \<noteq> NaN \<and> n \<noteq> Finite 0)"

text \<open>\<^verbatim>\<open>a || b\<close>\<close>

definition or_else :: "jsval \<Rightarrow> jsval \<Rightarrow> jsval" where
  "or_else a b = (if truthy a then a else b)"

subsection \<open>Characters\<close>

definition code_unit :: "char \<Rightarrow> nat" where
  "code_unit c = of_char c"

text \<open>
  \<^verbatim>\<open>StrWhiteSpaceChar\<close> of the language, which is also the class \<^verbatim>\<open>\s\<close> of its
  regular expressions: TAB, LF, VT, FF, CR, SP and NBSP are its members below 256.
\<close>

definition isWhiteSpace :: "char \<Rightarrow> bool" where
  "isWhiteSpace c = (code_unit c = 9 \<or> code_unit c = 10 \<or> code_unit c = 11 \<or>
     code_unit c = 12 \<or> code_unit c = 13 \<or> code_unit c = 32 \<or> code_unit c = 160)"

definition isDigit :: "char \<Rightarrow> bool" where
  "isDigit c = (48 \<le> code_unit c \<and> code_unit c \<le> 57)"

definition isHexDigit :: "char \<Rightarrow> bool" where
  "isHexDigit c = (isDigit c \<or> (97 \<le> code_unit c \<and> code_unit c \<le> 102) \<or>
     (65 \<le> code_unit c \<and> code_unit c \<le> 70))"

definition isOctalDigit :: "char \<Rightarrow> bool" where
  "isOctalDigit c = (48 \<le> code_unit c \<and> code_unit c \<le> 55)"

definition isBinaryDigit :: "char \<Rightarrow> bool" where
  "isBinaryDigit c = (code_unit c = 48 \<or> code_unit c = 49)"

definition digitValue :: "char \<Rightarrow> nat" where
  "digitValue c =
     (if isDigit c then code_unit c - 48
      else if 97 \<le> code_unit c then code_unit c - 87
      else code_unit c - 55)"

text \<open>The mathematical value of a run of digits in radix \<open>R\<close>.\<close>

definition radixValue :: "nat \<Rightarrow> string \<Rightarrow> nat" where
  "radixValue R ds = foldl (\<lambda>a c. R * a + digitValue c) 0 ds"

subsection \<open>\<^verbatim>\<open>parseInt\<close>, \<^verbatim>\<open>parseFloat\<close> and \<^verbatim>\<open>ToNumber\<close> on strings\<close>

text \<open>
  \<^verbatim>\<open>parseInt(string)\<close> with no radix: leading white space is skipped, a sign is read,
  a prefix \<^verbatim>\<open>0x\<close> selects radix 16, and the longest run of digits is the value. With no
  digit the result is \<^verbatim>\<open>NaN\<close>.
\<close>

definition parseInt :: "string \<Rightarrow> number" where
  "parseInt inputString =
     (let S = dropWhile isWhiteSpace inputString;
          negative = (take 1 S = ''-'');
          S1 = (if take 1 S = ''+'' \<or> take 1 S = ''-'' then drop 1 S else S);
          hex = (take 2 S1 = ''0x'' \<or> take 2 S1 = ''0X'');
          S2 = (if hex then drop 2 S1 else S1);
          Z = takeWhile (if hex then isHexDigit else isDigit) S2;
          mathInt = radixValue (if hex then 16 else 10) Z
      in if Z = [] then NaN
         else if negative then binary64 (- of_nat mathInt) else binary64 (of_nat mathInt))"

text \<open>
  The longest prefix of a string that is a \<^verbatim>\<open>StrDecimalLiteral\<close>
  (\<^verbatim>\<open>[+-]? (Infinity | digits [. digits?] [exp] | . digits [exp])\<close>), with its value and
  the rest of the string; \<open>None\<close> when no prefix is one.
\<close>

definition scanExponent :: "string \<Rightarrow> (bool \<times> nat) \<times> string" where
  "scanExponent r =
     (if take 1 r = ''e'' \<or> take 1 r = ''E'' then
        (let r1 = drop 1 r;
             negative = (take 1 r1 = ''-'');
             r2 = (if take 1 r1 = ''+'' \<or> take 1 r1 = ''-'' then drop 1 r1 else r1);
             ds = takeWhile isDigit r2
         in if ds = [] then ((False, 0), r)
            else ((negative, radixValue 10 ds), dropWhile isDigit r2))
      else ((False, 0), r))"

definition scanDecimal :: "string \<Rightarrow> (number \<times> string) option" where
  "scanDecimal t =
     (let negative = (take 1 t = ''-'');
          u = (if take 1 t = ''+'' \<or> take 1 t = ''-'' then drop 1 t else t)
      in if take 8 u = ''Infinity''
         then Some (if negative then NegInfinity else PosInfinity, drop 8 u)
         else
           (let ip = takeWhile isDigit u;
                r1 = dropWhile isDigit u;
                dot = (take 1 r1 = ''.'');
                fp = (if dot then takeWhile isDigit (drop 1 r1) else []);
                r2 = (if dot then dropWhile isDigit (drop 1 r1) else r1)
            in if ip = [] \<and> fp = [] then None
               else
                 (let ((eneg, e), r3) = scanExponent r2;
                      m = (of_nat (radixValue 10 (ip @ fp)) :: rat) / 10 ^ length fp;
                      v = (if eneg then m / 10 ^ e else m * 10 ^ e)
                  in Some (binary64 (if negative then - v else v), r3))))"

definition parseFloat :: "string \<Rightarrow> number" where
  "parseFloat string =
     (case scanDecimal (dropWhile isWhiteSpace string) of
        None \<Rightarrow> NaN
      | Some (v, rest) \<Rightarrow> v)"

text \<open>
  \<^verbatim>\<open>ToNumber\<close> of a string, which the operator \<^verbatim>\<open>/\<close> applies to a string operand: white
  space is trimmed at both ends, the empty string is 0, and the whole of what is left
  must be a decimal literal or a binary, octal or hexadecimal integer literal.
\<close>

definition trim :: "string \<Rightarrow> string" where
  "trim s = rev (dropWhile isWhiteSpace (rev (dropWhile isWhiteSpace s)))"

definition nonDecimal :: "string \<Rightarrow> number option" where
  "nonDecimal t =
     (let p = take 2 t; ds = drop 2 t
      in if (p = ''0x'' \<or> p = ''0X'') \<and> ds \<noteq> [] \<and> list_all isHexDigit ds
           then Some (binary64 (of_nat (radixValue 16 ds)))
         else if (p = ''0o'' \<or> p = ''0O'') \<and> ds \<noteq> [] \<and> list_all isOctalDigit ds
           then Some (binary64 (of_nat (radixValue 8 ds)))
         else if (p = ''0b'' \<or> p = ''0B'') \<and> ds \<noteq> [] \<and> list_all isBinaryDigit ds
           then Some (binary64 (of_nat (radixValue 2 ds)))
         else None)"

definition StringToNumber :: "string \<Rightarrow> number" where
  "StringToNumber s =
     (let t = trim s
      in if t = [] then Finite 0
         else case nonDecimal t of
                Some v \<Rightarrow> v
              | None \<Rightarrow>
                  (case scanDecimal t of
                     Some (v, []) \<Rightarrow> v
                   | _ \<Rightarrow> NaN))"

fun ToNumber :: "jsval \<Rightarrow> number" where
  "ToNumber JUndefined = NaN"
| "ToNumber JNull = Finite 0"
| "ToNumber (JString s) = StringToNumber s"
| "ToNumber (JNumber n) = n"

text \<open>\<^verbatim>\<open>x / 10\<close> and \<^verbatim>\<open>Math.ceil\<close>.\<close>

definition divide10 :: "number \<Rightarrow> number" where
  "divide10 x = (case x of Finite q \<Rightarrow> binary64 (q / 10) | _ \<Rightarrow> x)"

definition Math_ceil :: "number \<Rightarrow> number" where
  "Math_ceil x = (case x of Finite q \<Rightarrow> Finite (of_int \<lceil>q\<rceil>) | _ \<Rightarrow> x)"

text \<open>\<^verbatim>\<open>ToString\<close> of a field: the string itself, or \<^verbatim>\<open>"undefined"\<close>.\<close>

definition ToString :: "field \<Rightarrow> string" where
  "ToString f = (case f of None \<Rightarrow> ''undefined'' | Some s \<Rightarrow> s)"

text \<open>
  A value that a callback of \<^verbatim>\<open>Array.prototype.map\<close> returns: an object,
  \<^verbatim>\<open>null\<close>, or \<^verbatim>\<open>undefined\<close> when the callback ends without a \<^verbatim>\<open>return\<close>.
\<close>

datatype 'a returned = Undefined | Null | Value 'a

section \<open>Movies routes\<close>

subsection \<open>The provider\<close>

text \<open>
  The body of an OMDb response: a JSON object whose fields are strings, any of them
  absent. \<open>Search\<close> is the array of a search response, each hit kept as its
  \<^verbatim>\<open>imdbID\<close> (the one field of a hit that the server reads); it is \<open>None\<close> when the
  field is absent or not an array.
\<close>

record omdb_data =
  Response :: field
  Error :: field
  imdbID :: field
  Title :: field
  Plot :: field
  Poster :: field
  Year :: field
  imdbRating :: field
  imdbVotes :: field
  Genre :: field
  Runtime :: field
  Director :: field
  Actors :: field
  Search :: "field list option"
  totalResults :: field

text \<open>
  The query parameters of one request, in the order of the object literal; and what
  \<^verbatim>\<open>axios.get\<close> does with it: the promise is rejected (no connection, a timeout, a
  status outside 2xx) or resolved with the body. The provider is outside the program: it
  is a function of the position of the request among those of one run of a handler, and
  of the parameters, so that two requests with the same parameters may be answered
  differently.
\<close>

type_synonym params = "(string \<times> jsval) list"

datatype reply = Rejected | Resolved omdb_data

type_synonym provider = "nat \<Rightarrow> params \<Rightarrow> reply"

datatype error = AxiosError | OMDbError jsval

text \<open>
  \<^verbatim>\<open>fetchFromOMDB\<close>. \<open>calls\<close> is the list of the requests sent so far, which the
  function extends. \<open>OMDB_API_KEY\<close> is \<^verbatim>\<open>process.env.OMDB_API_KEY\<close>.
\<close>

definition fetchFromOMDB ::
  "field \<Rightarrow> provider \<Rightarrow> params \<Rightarrow> params list \<Rightarrow> (error + omdb_data) \<times> params list" where
  "fetchFromOMDB OMDB_API_KEY omdb params calls =
     (let request = (''apikey'', val OMDB_API_KEY) # params;
          calls' = calls @ [request]
      in case omdb (length calls) request of
           Rejected \<Rightarrow> (Inl AxiosError, calls')
         | Resolved data \<Rightarrow>
             if Response data = Some ''False''
             then (Inl (OMDbError (or_else (val (Error data)) (JString ''OMDb API Error''))), calls')
             else (Inr data, calls'))"

subsection \<open>\<^verbatim>\<open>formatMovie\<close>\<close>

record movie =
  movie_id :: jsval
  title :: jsval
  overview :: jsval
  posterPath :: jsval
  backdropPath :: jsval
  releaseDate :: jsval
  rating :: jsval
  voteCount :: jsval
  genre :: jsval
  runtime :: jsval
  director :: jsval
  actors :: jsval

text \<open>\<^verbatim>\<open>s.replace(/,/g, '')\<close>\<close>

definition replace_commas :: "string \<Rightarrow> string" where
  "replace_commas s = filter (\<lambda>c. c \<noteq> CHR '','') s"

text \<open>
  The field \<^verbatim>\<open>id\<close> of the source is \<open>movie_id\<close> here. \<^verbatim>\<open>.replace\<close> is reached
  only behind the test of \<^verbatim>\<open>movie.imdbVotes\<close>, on a string that is not empty.
\<close>

definition formatMovie :: "omdb_data \<Rightarrow> movie" where
  "formatMovie movie =
     (let rating =
            (if truthy (val (imdbRating movie)) \<and> val (imdbRating movie) \<noteq> JString ''N/A''
             then JNumber (parseFloat (ToString (imdbRating movie)))
             else JNull);
          year =
            (if truthy (val (Year movie)) \<and> val (Year movie) \<noteq> JString ''N/A''
             then val (Year movie)
             else JNull)
      in \<lparr> movie_id = or_else (val (imdbID movie)) (val (Title movie)),
           title = val (Title movie),
           overview =
             (if truthy (val (Plot movie)) \<and> val (Plot movie) \<noteq> JString ''N/A''
              then val (Plot movie) else JString ''No description available.''),
           posterPath =
             (if truthy (val (Poster movie)) \<and> val (Poster movie) \<noteq> JString ''N/A''
              then val (Poster movie) else JNull),
           backdropPath =
             (if truthy (val (Poster movie)) \<and> val (Poster movie) \<noteq> JString ''N/A''
              then val (Poster movie) else JNull),
           releaseDate = year,
           rating = rating,
           voteCount =
             (if truthy (val (imdbVotes movie))
              then JNumber (parseInt (replace_commas (ToString (imdbVotes movie))))
              else JNull),
           genre = or_else (val (Genre movie)) (JString ''''),
           runtime = val (Runtime movie),
           director = val (Director movie),
           actors = val (Actors movie) \<rparr>)"

subsection \<open>\<^verbatim>\<open>fetchMoviesByTitles\<close>\<close>

text \<open>
  The callback of \<^verbatim>\<open>titles.map\<close>, its parameter \<^verbatim>\<open>title\<close> written \<open>t\<close>. Each
  call of it sends its request before the next one starts, so the requests go out in the order of the titles; the array of results
  has the order of the titles whatever the order of the answers.
\<close>

definition fetch_title ::
  "field \<Rightarrow> provider \<Rightarrow> string \<Rightarrow> params list \<Rightarrow> movie returned \<times> params list" where
  "fetch_title OMDB_API_KEY omdb t calls =
     (case fetchFromOMDB OMDB_API_KEY omdb
             [(''t'', JString t), (''type'', JString ''movie'')] calls of
        (Inr data, calls') \<Rightarrow>
          (if truthy (val (Title data)) then Value (formatMovie data) else Undefined, calls')
      | (Inl error, calls') \<Rightarrow> (Null, calls'))"

fun map_titles ::
  "field \<Rightarrow> provider \<Rightarrow> string list \<Rightarrow> params list \<Rightarrow> movie returned list \<times> params list" where
  "map_titles OMDB_API_KEY omdb [] calls = ([], calls)"
| "map_titles OMDB_API_KEY omdb (t # titles) calls =
     (let (r, calls1) = fetch_title OMDB_API_KEY omdb t calls;
          (rs, calls2) = map_titles OMDB_API_KEY omdb titles calls1
      in (r # rs, calls2))"

definition fetchMoviesByTitles ::
  "field \<Rightarrow> provider \<Rightarrow> string list \<Rightarrow> params list \<Rightarrow> movie returned list \<times> params list" where
  "fetchMoviesByTitles OMDB_API_KEY omdb titles calls =
     (let (results, calls') = map_titles OMDB_API_KEY omdb titles calls
      in (filter (\<lambda>movie. movie \<noteq> Null) results, calls'))"

subsection \<open>\<^verbatim>\<open>GET /api/movies/search\<close>\<close>

text \<open>\<^verbatim>\<open>req.query\<close>\<close>

record req_query =
  query :: field
  page :: field

datatype user_without_password = User nat string string jsval

text \<open>
  The JSON of a response next to \<^verbatim>\<open>success\<close>: \<^verbatim>\<open>{message}\<close>,
  \<^verbatim>\<open>{message, userId}\<close>, \<^verbatim>\<open>{message, user}\<close> or
  \<^verbatim>\<open>{page, totalPages, totalResults, movies}\<close>.
\<close>

datatype payload =
    Message string
  | Registered string nat
  | LoggedIn string user_without_password
  | Listing jsval jsval jsval "movie returned list"

record response =
  status :: nat
  success :: bool
  payload :: payload

definition fetch_details ::
  "field \<Rightarrow> provider \<Rightarrow> field \<Rightarrow> params list \<Rightarrow> movie returned \<times> params list" where
  "fetch_details OMDB_API_KEY omdb item calls =
     (case fetchFromOMDB OMDB_API_KEY omdb [(''i'', val item)] calls of
        (Inr details, calls') \<Rightarrow> (Value (formatMovie details), calls')
      | (Inl error, calls') \<Rightarrow> (Null, calls'))"

fun map_details ::
  "field \<Rightarrow> provider \<Rightarrow> field list \<Rightarrow> params list \<Rightarrow> movie returned list \<times> params list" where
  "map_details OMDB_API_KEY omdb [] calls = ([], calls)"
| "map_details OMDB_API_KEY omdb (item # items) calls =
     (let (r, calls1) = fetch_details OMDB_API_KEY omdb item calls;
          (rs, calls2) = map_details OMDB_API_KEY omdb items calls1
      in (r # rs, calls2))"

text \<open>The handler: the response and the requests sent to the provider.\<close>

definition search :: "field \<Rightarrow> provider \<Rightarrow> req_query \<Rightarrow> response \<times> params list" where
  "search OMDB_API_KEY omdb req =
     (if \<not> truthy (val (query req)) then
        (\<lparr> status = 400, success = False, payload = Message ''Search query is required'' \<rparr>, [])
      else if \<not> truthy (val OMDB_API_KEY) \<or> OMDB_API_KEY = Some ''your-omdb-api-key'' then
        (\<lparr> status = 500, success = False, payload = Message ''OMDb API key not configured'' \<rparr>, [])
      else
        case fetchFromOMDB OMDB_API_KEY omdb
               [(''s'', val (query req)), (''type'', JString ''movie''),
                (''page'', or_else (val (page req)) (JNumber (Finite 1)))] [] of
          (Inl error, calls) \<Rightarrow>
            (\<lparr> status = 500, success = False, payload = Message ''Failed to search movies'' \<rparr>,
             calls)
        | (Inr searchData, calls) \<Rightarrow>
            (let (movies, calls') =
                   (case Search searchData of
                      Some hits \<Rightarrow>
                        (let limitedResults = take 8 hits;
                             (results, calls1) =
                               map_details OMDB_API_KEY omdb limitedResults calls
                         in (filter (\<lambda>movie. movie \<noteq> Null) results, calls1))
                    | None \<Rightarrow> ([], calls))
             in (\<lparr> status = 200, success = True,
                   payload = Listing
                     (or_else (JNumber (parseInt (ToString (page req)))) (JNumber (Finite 1)))
                     (JNumber (Math_ceil (divide10 (ToNumber
                        (or_else (val (totalResults searchData)) (JNumber (Finite 0)))))))
                     (or_else (JNumber (parseInt (ToString (totalResults searchData))))
                        (JNumber (Finite 0)))
                     movies \<rparr>,
                 calls')))"

section \<open>Authentication routes\<close>

subsection \<open>The values of a request body\<close>

text \<open>
  \<^verbatim>\<open>req.body\<close> is what the JSON parser (or the parser of form data) made of the
  request: each of its properties is any JSON value, or \<open>Absent\<close> when the body has no
  such property (\<^verbatim>\<open>undefined\<close>). The properties of an object are kept in the order
  of the text; where a name occurs twice the last one counts.
\<close>

datatype json =
    Absent
  | JsonNull
  | JsonBoolean bool
  | JsonNumber number
  | JsonString string
  | JsonArray "json list"
  | JsonObject "(string \<times> json) list"

definition own :: "(string \<times> json) list \<Rightarrow> string \<Rightarrow> json option" where
  "own properties k = map_of (rev properties) k"

text \<open>\<^verbatim>\<open>ToBoolean\<close>\<close>

fun truthy_json :: "json \<Rightarrow> bool" where
  "truthy_json Absent = False"
| "truthy_json JsonNull = False"
| "truthy_json (JsonBoolean b) = b"
| "truthy_json (JsonNumber n) = (n \<noteq> NaN \<and> n \<noteq> Finite 0)"
| "truthy_json (JsonString s) = (s \<noteq> [])"
| "truthy_json (JsonArray elements) = True"
| "truthy_json (JsonObject properties) = True"

text \<open>
  \<^verbatim>\<open>ToString\<close>, which \<^verbatim>\<open>RegExp.prototype.test\<close> applies to its argument; \<open>None\<close>
  is a \<^verbatim>\<open>TypeError\<close>. An integer below \<open>2 ^ 53\<close> is written with its decimal digits;
  the digits of any other finite number are those of the shortest decimal that rounds
  to it, and are the parameter \<open>other\<close>. An array is its elements joined by commas,
  \<^verbatim>\<open>null\<close> and \<^verbatim>\<open>undefined\<close> giving the empty string. A parsed object has no
  callable property of its own, so it is \<^verbatim>\<open>[object Object]\<close> by the inherited
  \<^verbatim>\<open>toString\<close>, and a \<^verbatim>\<open>TypeError\<close> when a property of its own hides that one.
\<close>

fun decimal :: "nat \<Rightarrow> string" where
  "decimal n =
     (if n < 10 then [''0123456789'' ! n]
      else decimal (n div 10) @ [''0123456789'' ! (n mod 10)])"

declare decimal.simps [simp del]

definition Number_toString :: "(rat \<Rightarrow> string) \<Rightarrow> number \<Rightarrow> string" where
  "Number_toString other n =
     (case n of
        NaN \<Rightarrow> ''NaN''
      | PosInfinity \<Rightarrow> ''Infinity''
      | NegInfinity \<Rightarrow> ''-Infinity''
      | Finite q \<Rightarrow>
          if q = of_int \<lfloor>q\<rfloor> \<and> \<bar>q\<bar> < 2 ^ 53
          then (if q < 0 then ''-'' @ decimal (nat \<lfloor>- q\<rfloor>) else decimal (nat \<lfloor>q\<rfloor>))
          else other q)"

fun join :: "string \<Rightarrow> string list \<Rightarrow> string" where
  "join separator [] = []"
| "join separator [x] = x"
| "join separator (x # y # ys) = x @ separator @ join separator (y # ys)"

fun ToString_json :: "(rat \<Rightarrow> string) \<Rightarrow> json \<Rightarrow> string option" where
  "ToString_json other Absent = Some ''undefined''"
| "ToString_json other JsonNull = Some ''null''"
| "ToString_json other (JsonBoolean b) = Some (if b then ''true'' else ''false'')"
| "ToString_json other (JsonNumber n) = Some (Number_toString other n)"
| "ToString_json other (JsonString s) = Some s"
| "ToString_json other (JsonArray elements) =
     map_option (join '','')
       (those (map (\<lambda>x. if x = Absent \<or> x = JsonNull then Some []
                         else ToString_json other x) elements))"
| "ToString_json other (JsonObject properties) =
     (if own properties ''toString'' = None then Some ''[object Object]'' else None)"

text \<open>
  \<^verbatim>\<open>x < c\<close> for a number \<open>c\<close>: an array or an object is first made a string (the
  inherited \<^verbatim>\<open>valueOf\<close> returns the object itself), then both sides are numbers, and
  a comparison with \<^verbatim>\<open>NaN\<close> is false.
\<close>

definition number_less :: "number \<Rightarrow> rat \<Rightarrow> bool" where
  "number_less n c =
     (case n of Finite q \<Rightarrow> q < c | NegInfinity \<Rightarrow> True | PosInfinity \<Rightarrow> False | NaN \<Rightarrow> False)"

definition less_than :: "(rat \<Rightarrow> string) \<Rightarrow> json \<Rightarrow> rat \<Rightarrow> bool option" where
  "less_than other x c =
     (case x of
        Absent \<Rightarrow> Some False
      | JsonNull \<Rightarrow> Some (0 < c)
      | JsonBoolean b \<Rightarrow> Some ((if b then 1 else 0) < c)
      | JsonNumber n \<Rightarrow> Some (number_less n c)
      | JsonString s \<Rightarrow> Some (number_less (StringToNumber s) c)
      | JsonArray elements \<Rightarrow>
          map_option (\<lambda>s. number_less (StringToNumber s) c) (ToString_json other x)
      | JsonObject properties \<Rightarrow>
          map_option (\<lambda>s. number_less (StringToNumber s) c) (ToString_json other x))"

text \<open>
  \<^verbatim>\<open>x.length\<close>: the length of a string or an array, the property of that name of an
  object, \<^verbatim>\<open>undefined\<close> for a number or a boolean, a \<^verbatim>\<open>TypeError\<close> (\<open>None\<close>) for
  \<^verbatim>\<open>null\<close> and \<^verbatim>\<open>undefined\<close>.
\<close>

definition length_property :: "json \<Rightarrow> json option" where
  "length_property x =
     (case x of
        Absent \<Rightarrow> None
      | JsonNull \<Rightarrow> None
      | JsonBoolean b \<Rightarrow> Some Absent
      | JsonNumber n \<Rightarrow> Some Absent
      | JsonString s \<Rightarrow> Some (JsonNumber (Finite (of_nat (length s))))
      | JsonArray elements \<Rightarrow> Some (JsonNumber (Finite (of_nat (length elements))))
      | JsonObject properties \<Rightarrow>
          Some (case own properties ''length'' of None \<Rightarrow> Absent | Some v \<Rightarrow> v))"

text \<open>\<^verbatim>\<open>x.length < c\<close>\<close>

definition length_less_than :: "(rat \<Rightarrow> string) \<Rightarrow> json \<Rightarrow> rat \<Rightarrow> bool option" where
  "length_less_than other x c =
     (case length_property x of None \<Rightarrow> None | Some len \<Rightarrow> less_than other len c)"

subsection \<open>The store and the hashing library\<close>

text \<open>
  The table \<^verbatim>\<open>users\<close> of the schema (\<^verbatim>\<open>id INT AUTO_INCREMENT PRIMARY KEY\<close>,
  \<^verbatim>\<open>username\<close>, \<^verbatim>\<open>email UNIQUE\<close>, \<^verbatim>\<open>password\<close>, \<^verbatim>\<open>phone\<close>; the column
  \<^verbatim>\<open>created_at\<close> is a time stamp and is left out). \<open>row_phone\<close> is a string or
  \<^verbatim>\<open>NULL\<close>.
\<close>

record user_row =
  row_id :: nat
  row_username :: string
  row_email :: string
  row_password :: string
  row_phone :: jsval

text \<open>
  The three statements that the routes pass to \<^verbatim>\<open>pool.execute\<close>, with their
  parameters: values of the request body, but for the hash.
\<close>

datatype statement =
    SelectIdByEmail json
  | SelectUserByEmail json
  | InsertUser json json string json

text \<open>
  The state of the store: the rows, the next value of the \<^verbatim>\<open>AUTO_INCREMENT\<close>
  counter, the statements received so far, and \<open>faults\<close>, which says of each coming
  statement whether the driver or the server rejects it for a reason outside the table
  (no connection, a parameter it does not take, a value too long for its column):
  \<^verbatim>\<open>pool.execute\<close> then throws.
\<close>

record db =
  users_table :: "user_row list"
  auto_increment :: nat
  statements :: "statement list"
  faults :: "bool list"

text \<open>
  What is outside the repository. \<^verbatim>\<open>bcrypt.hash\<close> (a function here, for one choice
  of the salt) and \<^verbatim>\<open>bcrypt.compare\<close>, on a password that is a string; the
  comparison \<^verbatim>\<open>=\<close> of the column \<^verbatim>\<open>email\<close> with a parameter, which is the
  collation and the conversions of the server; the text that the driver and the server
  store for a parameter that is not a string; and the digits that \<^verbatim>\<open>ToString\<close> gives
  a number that is not an integer below \<open>2 ^ 53\<close>.
\<close>

record libs =
  bcrypt_hash :: "string \<Rightarrow> nat \<Rightarrow> string"
  bcrypt_compare :: "string \<Rightarrow> string \<Rightarrow> bool"
  email_equal :: "string \<Rightarrow> json \<Rightarrow> bool"
  column_text :: "json \<Rightarrow> string"
  fraction_text :: "rat \<Rightarrow> string"

text \<open>
  Both functions of the library reject (\<^verbatim>\<open>Illegal arguments\<close>) when the password is
  not a string: \<open>None\<close>. The hash read from the table is a string.
\<close>

definition hash_password :: "libs \<Rightarrow> json \<Rightarrow> nat \<Rightarrow> string option" where
  "hash_password l x rounds =
     (case x of JsonString s \<Rightarrow> Some (bcrypt_hash l s rounds) | _ \<Rightarrow> None)"

definition compare_password :: "libs \<Rightarrow> json \<Rightarrow> string \<Rightarrow> bool option" where
  "compare_password l x h =
     (case x of JsonString s \<Rightarrow> Some (bcrypt_compare l s h) | _ \<Rightarrow> None)"

definition issue :: "db \<Rightarrow> statement \<Rightarrow> bool \<times> db" where
  "issue d st =
     (take 1 (faults d) \<noteq> [True],
      d\<lparr> statements := statements d @ [st], faults := drop 1 (faults d) \<rparr>)"

definition matching :: "libs \<Rightarrow> db \<Rightarrow> json \<Rightarrow> user_row list" where
  "matching l d e = filter (\<lambda>r. email_equal l (row_email r) e) (users_table d)"

text \<open>What a parameter becomes in a text column, and in the column \<^verbatim>\<open>phone\<close>.\<close>

definition to_column :: "libs \<Rightarrow> json \<Rightarrow> string" where
  "to_column l x = (case x of JsonString s \<Rightarrow> s | _ \<Rightarrow> column_text l x)"

definition to_phone :: "libs \<Rightarrow> json \<Rightarrow> jsval" where
  "to_phone l x = (case x of JsonNull \<Rightarrow> JNull | _ \<Rightarrow> JString (to_column l x))"

text \<open>\<^verbatim>\<open>pool.execute\<close> on each statement: \<open>None\<close> when it throws.\<close>

definition select_id_by_email :: "libs \<Rightarrow> db \<Rightarrow> json \<Rightarrow> nat list option \<times> db" where
  "select_id_by_email l d e =
     (let (ok, d') = issue d (SelectIdByEmail e)
      in (if ok then Some (map row_id (matching l d e)) else None, d'))"

definition select_user_by_email :: "libs \<Rightarrow> db \<Rightarrow> json \<Rightarrow> user_row list option \<times> db" where
  "select_user_by_email l d e =
     (let (ok, d') = issue d (SelectUserByEmail e)
      in (if ok then Some (matching l d e) else None, d'))"

text \<open>
  The insert is rejected as well when a row has the email that the new row would have
  (\<^verbatim>\<open>UNIQUE\<close>).
\<close>

definition insert_user ::
  "libs \<Rightarrow> db \<Rightarrow> json \<Rightarrow> json \<Rightarrow> string \<Rightarrow> json \<Rightarrow> nat option \<times> db" where
  "insert_user l d u e h ph =
     (let (ok, d') = issue d (InsertUser u e h ph)
      in if ok \<and> matching l d (JsonString (to_column l e)) = []
         then (Some (auto_increment d),
               d'\<lparr> users_table := users_table d @
                      [\<lparr> row_id = auto_increment d, row_username = to_column l u,
                         row_email = to_column l e, row_password = h,
                         row_phone = to_phone l ph \<rparr>],
                    auto_increment := Suc (auto_increment d) \<rparr>)
         else (None, d'))"

subsection \<open>The regular expression of the email\<close>

text \<open>
  \<^verbatim>\<open>/^[^\s@]+@[^\s@]+\.[^\s@]+$/.test(s)\<close> on a string: \<open>s\<close> is \<open>a @ b . c\<close> with
  \<open>a\<close>, \<open>b\<close> and \<open>c\<close> not empty and free of white space and of \<^verbatim>\<open>@\<close>. On any
  other value, \<^verbatim>\<open>test\<close> makes it a string first.
\<close>

fun splits :: "'a list \<Rightarrow> ('a list \<times> 'a list) list" where
  "splits [] = [([], [])]"
| "splits (x # xs) = ([], x # xs) # map (\<lambda>(a, b). (x # a, b)) (splits xs)"

definition notSpaceOrAt :: "char \<Rightarrow> bool" where
  "notSpaceOrAt c = (\<not> isWhiteSpace c \<and> c \<noteq> CHR ''@'')"

definition emailRegex_test :: "string \<Rightarrow> bool" where
  "emailRegex_test s =
     list_ex (\<lambda>(a, r). a \<noteq> [] \<and> list_all notSpaceOrAt a \<and> take 1 r = ''@'' \<and>
        list_ex (\<lambda>(b, q). b \<noteq> [] \<and> list_all notSpaceOrAt b \<and> take 1 q = ''.'' \<and>
           drop 1 q \<noteq> [] \<and> list_all notSpaceOrAt (drop 1 q))
          (splits (drop 1 r)))
       (splits s)"

definition emailRegex_test_value :: "(rat \<Rightarrow> string) \<Rightarrow> json \<Rightarrow> bool option" where
  "emailRegex_test_value other x = map_option emailRegex_test (ToString_json other x)"

subsection \<open>\<^verbatim>\<open>POST /api/register\<close> and \<^verbatim>\<open>POST /api/login\<close>\<close>

text \<open>
  The object \<^verbatim>\<open>req.body\<close>, read by
  \<^verbatim>\<open>const { username, email, password, phone } = req.body\<close>. A handler gets
  \<open>Some\<close> of it, or \<open>None\<close> when the parsers left \<^verbatim>\<open>req.body\<close> undefined (a
  request with no body to parse): the destructuring then throws.
\<close>

record body =
  username :: json
  email :: json
  password :: json
  phone :: json

definition SALT_ROUNDS :: nat where
  "SALT_ROUNDS = 10"

definition failure :: "nat \<Rightarrow> string \<Rightarrow> response" where
  "failure code text = \<lparr> status = code, success = False, payload = Message text \<rparr>"

text \<open>
  Whatever is thrown inside the handler (a \<^verbatim>\<open>TypeError\<close> of a conversion, a
  rejection by the library or by the store) is caught and answered with status 500.
\<close>

definition register :: "libs \<Rightarrow> db \<Rightarrow> body option \<Rightarrow> response \<times> db" where
  "register l d req_body =
     (case req_body of
        None \<Rightarrow> (failure 500 ''Internal server error during registration'', d)
      | Some req \<Rightarrow>
      if \<not> truthy_json (username req) \<or> \<not> truthy_json (email req) \<or>
         \<not> truthy_json (password req) then
        (failure 400 ''Username, email, and password are required'', d)
      else
        case emailRegex_test_value (fraction_text l) (email req) of
          None \<Rightarrow> (failure 500 ''Internal server error during registration'', d)
        | Some False \<Rightarrow> (failure 400 ''Please provide a valid email address'', d)
        | Some True \<Rightarrow>
           (case length_less_than (fraction_text l) (password req) 6 of
              None \<Rightarrow> (failure 500 ''Internal server error during registration'', d)
            | Some True \<Rightarrow> (failure 400 ''Password must be at least 6 characters long'', d)
            | Some False \<Rightarrow>
               (case select_id_by_email l d (email req) of
                  (None, d1) \<Rightarrow>
                    (failure 500 ''Internal server error during registration'', d1)
                | (Some existingUsers, d1) \<Rightarrow>
                    if length existingUsers > 0 then
                      (failure 409 ''Email already registered'', d1)
                    else
                      (case hash_password l (password req) SALT_ROUNDS of
                         None \<Rightarrow>
                           (failure 500 ''Internal server error during registration'', d1)
                       | Some hashedPassword \<Rightarrow>
                          (case insert_user l d1 (username req) (email req) hashedPassword
                                  (if truthy_json (phone req) then phone req else JsonNull) of
                             (None, d2) \<Rightarrow>
                               (failure 500 ''Internal server error during registration'', d2)
                           | (Some insertId, d2) \<Rightarrow>
                               (\<lparr> status = 201, success = True,
                                  payload =
                                    Registered ''User registered successfully'' insertId \<rparr>,
                                d2))))))"

definition login :: "libs \<Rightarrow> db \<Rightarrow> body option \<Rightarrow> response \<times> db" where
  "login l d req_body =
     (case req_body of
        None \<Rightarrow> (failure 500 ''Internal server error during login'', d)
      | Some req \<Rightarrow>
      if \<not> truthy_json (email req) \<or> \<not> truthy_json (password req) then
        (failure 400 ''Email and password are required'', d)
      else
        case select_user_by_email l d (email req) of
          (None, d1) \<Rightarrow> (failure 500 ''Internal server error during login'', d1)
        | (Some [], d1) \<Rightarrow> (failure 401 ''Invalid email or password'', d1)
        | (Some (user # others), d1) \<Rightarrow>
           (case compare_password l (password req) (row_password user) of
              None \<Rightarrow> (failure 500 ''Internal server error during login'', d1)
            | Some False \<Rightarrow> (failure 401 ''Invalid email or password'', d1)
            | Some True \<Rightarrow>
                (\<lparr> status = 200, success = True,
                   payload = LoggedIn ''Login successful''
                     (User (row_id user) (row_username user) (row_email user)
                        (row_phone user)) \<rparr>,
                 d1)))"

section \<open>Example inputs\<close>

text \<open>The object \<^verbatim>\<open>{}\<close>.\<close>

definition blank :: omdb_data where
  "blank = \<lparr> Response = None, Error = None, imdbID = None, Title = None, Plot = None,
     Poster = None, Year = None, imdbRating = None, imdbVotes = None, Genre = None,
     Runtime = None, Director = None, Actors = None, Search = None, totalResults = None \<rparr>"

text \<open>
  Two providers. Both know every title but \<^verbatim>\<open>B\<close>; for \<^verbatim>\<open>B\<close> the first answers with
  an object that has no \<^verbatim>\<open>Title\<close>, the second with the error of the provider.
\<close>

definition titleless_B :: provider where
  "titleless_B k request =
     (if map_of request ''t'' = Some (JString ''B'')
      then Resolved (blank\<lparr> Response := Some ''True'' \<rparr>)
      else Resolved (blank\<lparr> Response := Some ''True'', Title := Some ''T'' \<rparr>))"

definition failing_B :: provider where
  "failing_B k request =
     (if map_of request ''t'' = Some (JString ''B'')
      then Resolved (blank\<lparr> Response := Some ''False'', Error := Some ''Movie not found!'' \<rparr>)
      else Resolved (blank\<lparr> Response := Some ''True'', Title := Some ''T'' \<rparr>))"

text \<open>
  A provider that answers the first request with twelve hits and a total of 1234, fails
  on the third request and knows every other id.
\<close>

definition twelve_hits :: provider where
  "twelve_hits k request =
     (if k = 0 then
        Resolved (blank\<lparr> Response := Some ''True'',
          Search := Some (map (\<lambda>c. Some [CHR ''t'', CHR ''t'', c]) ''0123456789ab''),
          totalResults := Some ''1234'' \<rparr>)
      else if k = 2 then Rejected
      else Resolved (blank\<lparr> Response := Some ''True'', Title := Some ''T'' \<rparr>))"

text \<open>
  A stand-in for the hashing library and the store's conversions, a store with one
  account, and a request.
\<close>

definition example_libs :: libs where
  "example_libs = \<lparr> bcrypt_hash = (\<lambda>p n. ''$2a$'' @ p),
     bcrypt_compare = (\<lambda>p h. h = ''$2a$'' @ p),
     email_equal = (\<lambda>s x. x = JsonString s),
     column_text = (\<lambda>x. ''''), fraction_text = (\<lambda>q. '''') \<rparr>"

definition empty_db :: db where
  "empty_db = \<lparr> users_table = [], auto_increment = 1, statements = [], faults = [] \<rparr>"

definition ann :: body where
  "ann = \<lparr> username = JsonString ''ann'', email = JsonString ''ann@x.org'',
     password = JsonString ''secret1'', phone = Absent \<rparr>"

definition db_with_ann :: db where
  "db_with_ann = \<lparr> users_table =
       [\<lparr> row_id = 1, row_username = ''ann'', row_email = ''ann@x.org'',
          row_password = ''$2a$secret1'', row_phone = JNull \<rparr>],
     auto_increment = 2, statements = [], faults = [] \<rparr>"

section \<open>The normalizer\<close>

text \<open>
  C1, as the code has it. The fields \<^verbatim>\<open>overview\<close>, \<^verbatim>\<open>posterPath\<close>,
  \<^verbatim>\<open>backdropPath\<close>, \<^verbatim>\<open>releaseDate\<close>, \<^verbatim>\<open>rating\<close> and \<^verbatim>\<open>voteCount\<close> of the
  result of \<^verbatim>\<open>formatMovie\<close> are never the string \<^verbatim>\<open>"N/A"\<close>. When the provider's
  \<^verbatim>\<open>Plot\<close>, \<^verbatim>\<open>Poster\<close>, \<^verbatim>\<open>Year\<close> or \<^verbatim>\<open>imdbRating\<close> is absent or is
  \<^verbatim>\<open>"N/A"\<close>, the field made from it is the default: the placeholder text for
  \<^verbatim>\<open>overview\<close>, \<^verbatim>\<open>null\<close> for the others; \<^verbatim>\<open>voteCount\<close> is \<^verbatim>\<open>null\<close> when
  \<^verbatim>\<open>imdbVotes\<close> is absent. The fields \<^verbatim>\<open>title\<close>, \<^verbatim>\<open>runtime\<close>, \<^verbatim>\<open>director\<close>
  and \<^verbatim>\<open>actors\<close> are the provider's fields as they came, \<^verbatim>\<open>genre\<close> is the provider's
  \<^verbatim>\<open>Genre\<close> or the empty string, and \<^verbatim>\<open>id\<close> is \<^verbatim>\<open>imdbID\<close> or else \<^verbatim>\<open>Title\<close>:
  these six are \<^verbatim>\<open>"N/A"\<close> whenever the provider sends that.
\<close>

theorem formatMovie_sentinel:
  "overview (formatMovie m) \<noteq> JString ''N/A'' \<and>
   posterPath (formatMovie m) \<noteq> JString ''N/A'' \<and>
   backdropPath (formatMovie m) \<noteq> JString ''N/A'' \<and>
   releaseDate (formatMovie m) \<noteq> JString ''N/A'' \<and>
   rating (formatMovie m) \<noteq> JString ''N/A'' \<and>
   voteCount (formatMovie m) \<noteq> JString ''N/A'' \<and>
   (Plot m = None \<or> Plot m = Some ''N/A'' \<longrightarrow>
      overview (formatMovie m) = JString ''No description available.'') \<and>
   (Poster m = None \<or> Poster m = Some ''N/A'' \<longrightarrow>
      posterPath (formatMovie m) = JNull \<and> backdropPath (formatMovie m) = JNull) \<and>
   (Year m = None \<or> Year m = Some ''N/A'' \<longrightarrow> releaseDate (formatMovie m) = JNull) \<and>
   (imdbRating m = None \<or> imdbRating m = Some ''N/A'' \<longrightarrow> rating (formatMovie m) = JNull) \<and>
   (imdbVotes m = None \<longrightarrow> voteCount (formatMovie m) = JNull) \<and>
   movie_id (formatMovie m) = or_else (val (imdbID m)) (val (Title m)) \<and>
   title (formatMovie m) = val (Title m) \<and>
   genre (formatMovie m) = or_else (val (Genre m)) (JString '''') \<and>
   runtime (formatMovie m) = val (Runtime m) \<and>
   director (formatMovie m) = val (Director m) \<and>
   actors (formatMovie m) = val (Actors m)"
  by (auto simp add: formatMovie_def Let_def val_def split: option.splits)

text \<open>The theorem at a record whose plot, poster and rating are \<^verbatim>\<open>"N/A"\<close>.\<close>

theorem formatMovie_sentinel_witness:
  "overview (formatMovie
      (blank\<lparr> Plot := Some ''N/A'', Poster := Some ''N/A'', imdbRating := Some ''N/A'' \<rparr>))
     = JString ''No description available.'' \<and>
   posterPath (formatMovie
      (blank\<lparr> Plot := Some ''N/A'', Poster := Some ''N/A'', imdbRating := Some ''N/A'' \<rparr>))
     = JNull \<and>
   releaseDate (formatMovie
      (blank\<lparr> Plot := Some ''N/A'', Poster := Some ''N/A'', imdbRating := Some ''N/A'' \<rparr>))
     = JNull \<and>
   rating (formatMovie
      (blank\<lparr> Plot := Some ''N/A'', Poster := Some ''N/A'', imdbRating := Some ''N/A'' \<rparr>))
     = JNull \<and>
   voteCount (formatMovie
      (blank\<lparr> Plot := Some ''N/A'', Poster := Some ''N/A'', imdbRating := Some ''N/A'' \<rparr>))
     = JNull"
  using formatMovie_sentinel
    [of "blank\<lparr> Plot := Some ''N/A'', Poster := Some ''N/A'', imdbRating := Some ''N/A'' \<rparr>"]
  by (simp add: blank_def)

text \<open>
  C1 as it is stated fails: a record whose \<^verbatim>\<open>Runtime\<close> is \<^verbatim>\<open>"N/A"\<close> comes out with
  the \<^verbatim>\<open>runtime\<close> \<^verbatim>\<open>"N/A"\<close>.
\<close>

theorem runtime_sentinel_counterexample:
  "Runtime (blank\<lparr> Runtime := Some ''N/A'' \<rparr>) = Some ''N/A'' \<and>
   runtime (formatMovie (blank\<lparr> Runtime := Some ''N/A'' \<rparr>)) = JString ''N/A''"
  by (simp add: formatMovie_def Let_def val_def blank_def)

text \<open>
  C5 at a record whose \<^verbatim>\<open>imdbVotes\<close> is \<^verbatim>\<open>"N/A"\<close>: \<^verbatim>\<open>voteCount\<close> is \<^verbatim>\<open>NaN\<close>, where
  the specification has \<^verbatim>\<open>null\<close>. The same sentinel in \<^verbatim>\<open>imdbRating\<close> gives the rating
  \<^verbatim>\<open>null\<close>: the test that guards \<^verbatim>\<open>parseFloat\<close> is missing before \<^verbatim>\<open>parseInt\<close>.
\<close>

theorem voteCount_sentinel_NaN:
  "imdbVotes (blank\<lparr> imdbVotes := Some ''N/A'' \<rparr>) = Some ''N/A'' \<and>
   voteCount (formatMovie (blank\<lparr> imdbVotes := Some ''N/A'' \<rparr>)) = JNumber NaN \<and>
   rating (formatMovie (blank\<lparr> imdbRating := Some ''N/A'' \<rparr>)) = JNull"
  by (simp add: formatMovie_def Let_def val_def blank_def ToString_def replace_commas_def
      parseInt_def isWhiteSpace_def isDigit_def code_unit_def)

text \<open>
  C8: for every record of the provider, \<^verbatim>\<open>posterPath\<close> and \<^verbatim>\<open>backdropPath\<close> of the
  result of \<^verbatim>\<open>formatMovie\<close> are equal.
\<close>

theorem poster_equals_backdrop:
  "posterPath (formatMovie m) = backdropPath (formatMovie m)"
  by (simp add: formatMovie_def Let_def)

text \<open>The theorem at a record with a poster.\<close>

theorem poster_equals_backdrop_witness:
  "posterPath (formatMovie (blank\<lparr> Poster := Some ''http://img/p.jpg'' \<rparr>)) =
   backdropPath (formatMovie (blank\<lparr> Poster := Some ''http://img/p.jpg'' \<rparr>))"
  by (rule poster_equals_backdrop [of "blank\<lparr> Poster := Some ''http://img/p.jpg'' \<rparr>"])

section \<open>The batch fetcher\<close>

text \<open>
  The result of \<^verbatim>\<open>fetchMoviesByTitles\<close> for every list of titles: in the order of the
  titles, the formatted movie for each answer that has a title, \<^verbatim>\<open>undefined\<close> for
  each answer that has none, and nothing for each call that fails.
\<close>

lemma fetch_title_calls:
  "snd (fetch_title key omdb t calls) =
     calls @ [[(''apikey'', val key), (''t'', JString t), (''type'', JString ''movie'')]]"
  by (simp add: fetch_title_def fetchFromOMDB_def Let_def split: reply.split)

lemma fetch_title_result:
  "fst (fetch_title key omdb t calls) =
     (case omdb (length calls)
             [(''apikey'', val key), (''t'', JString t), (''type'', JString ''movie'')] of
        Rejected \<Rightarrow> Null
      | Resolved data \<Rightarrow>
          if Response data = Some ''False'' then Null
          else if truthy (val (Title data)) then Value (formatMovie data)
          else Undefined)"
  by (simp add: fetch_title_def fetchFromOMDB_def Let_def split: reply.split)

lemma map_titles_results:
  "fst (map_titles key omdb titles calls) =
     map (\<lambda>(k, t).
            case omdb k [(''apikey'', val key), (''t'', JString t), (''type'', JString ''movie'')] of
              Rejected \<Rightarrow> Null
            | Resolved data \<Rightarrow>
                if Response data = Some ''False'' then Null
                else if truthy (val (Title data)) then Value (formatMovie data)
                else Undefined)
       (enumerate (length calls) titles)"
proof (induction titles arbitrary: calls)
  case Nil
  show ?case by simp
next
  case (Cons t titles)
  have "fst (map_titles key omdb (t # titles) calls) =
          fst (fetch_title key omdb t calls) #
          fst (map_titles key omdb titles (snd (fetch_title key omdb t calls)))"
    by (simp add: split_beta Let_def)
  then show ?case
    by (simp add: Cons.IH fetch_title_calls fetch_title_result)
qed

lemma fetchMoviesByTitles_results:
  "fst (fetchMoviesByTitles key omdb titles calls) =
     filter (\<lambda>movie. movie \<noteq> Null)
       (map (\<lambda>(k, t).
            case omdb k [(''apikey'', val key), (''t'', JString t), (''type'', JString ''movie'')] of
              Rejected \<Rightarrow> Null
            | Resolved data \<Rightarrow>
                if Response data = Some ''False'' then Null
                else if truthy (val (Title data)) then Value (formatMovie data)
                else Undefined)
       (enumerate (length calls) titles))"
  by (simp add: fetchMoviesByTitles_def split_beta map_titles_results)

text \<open>
  C2 at the titles \<^verbatim>\<open>A\<close>, \<^verbatim>\<open>B\<close>, \<^verbatim>\<open>C\<close>. When the answer for \<^verbatim>\<open>B\<close> has no
  \<^verbatim>\<open>Title\<close>, the callback ends without a \<^verbatim>\<open>return\<close>, and the filter, which removes
  \<^verbatim>\<open>null\<close> only, keeps its \<^verbatim>\<open>undefined\<close>: the result has three elements. When the
  call for \<^verbatim>\<open>B\<close> fails, the result has the two movies. The detail stage of the
  search does not look at the title: an answer without one is formatted and kept.
\<close>

theorem fetchMoviesByTitles_keeps_undefined:
  "fst (fetchMoviesByTitles (Some ''k'') titleless_B [''A'', ''B'', ''C''] []) =
     [Value (formatMovie (blank\<lparr> Response := Some ''True'', Title := Some ''T'' \<rparr>)),
      Undefined,
      Value (formatMovie (blank\<lparr> Response := Some ''True'', Title := Some ''T'' \<rparr>))] \<and>
   fst (fetchMoviesByTitles (Some ''k'') failing_B [''A'', ''B'', ''C''] []) =
     [Value (formatMovie (blank\<lparr> Response := Some ''True'', Title := Some ''T'' \<rparr>)),
      Value (formatMovie (blank\<lparr> Response := Some ''True'', Title := Some ''T'' \<rparr>))] \<and>
   fst (map_details (Some ''k'') (\<lambda>k request. Resolved blank) [Some ''tt1''] []) =
     [Value (formatMovie blank)]"
  by (simp add: fetchMoviesByTitles_def fetch_title_def fetch_details_def fetchFromOMDB_def
      titleless_B_def failing_B_def blank_def val_def)

section \<open>Search\<close>

text \<open>
  C9: a search whose \<^verbatim>\<open>query\<close> is absent or empty is answered with status 400 and
  \<^verbatim>\<open>success: false\<close>, and no request goes to the provider, whatever the API key is.
\<close>

theorem search_requires_query:
  "query req = None \<or> query req = Some '''' \<Longrightarrow>
   search OMDB_API_KEY omdb req =
     (\<lparr> status = 400, success = False, payload = Message ''Search query is required'' \<rparr>, [])"
  by (auto simp add: search_def val_def)

text \<open>The theorem at an empty query, with no API key configured.\<close>

theorem search_requires_query_witness:
  "(query \<lparr> query = Some '''', page = Some ''2'' \<rparr> = None \<or>
    query \<lparr> query = Some '''', page = Some ''2'' \<rparr> = Some '''') \<and>
   search None (\<lambda>k p. Rejected) \<lparr> query = Some '''', page = Some ''2'' \<rparr> =
     (\<lparr> status = 400, success = False, payload = Message ''Search query is required'' \<rparr>, [])"
  using search_requires_query
    [of "\<lparr> query = Some '''', page = Some ''2'' \<rparr>" None "\<lambda>k p. Rejected"]
  by simp

subsection \<open>Strings of decimal digits\<close>

text \<open>
  On a string of decimal digits that is not empty and writes a number below \<open>2 ^ 53\<close>,
  \<^verbatim>\<open>parseInt\<close> and \<^verbatim>\<open>ToNumber\<close> both give that number.
\<close>

lemma binary64_nat:
  assumes "n < 2 ^ 53"
  shows "binary64 (of_nat n) = Finite (of_nat n)"
proof (cases "n = 0")
  case True
  then show ?thesis by (simp add: binary64_def)
next
  case False
  then have "(1 :: rat) \<le> of_nat n" by simp
  moreover have "(of_nat n :: rat) < 2 ^ 53"
    using assms by (metis of_nat_less_iff of_nat_numeral of_nat_power)
  moreover have "(2 :: rat) ^ 53 \<le> 2 ^ 1024 - 2 ^ 970" by simp
  moreover have "(1 :: rat) / 2 ^ 1075 < 1" by simp
  ultimately show ?thesis by (simp add: binary64_def)
qed

lemma binary64_tenth:
  assumes "n < 2 ^ 53"
  shows "binary64 (of_nat n / 10) = Finite (of_nat n / 10)"
proof (cases "n = 0")
  case True
  then show ?thesis by (simp add: binary64_def)
next
  case False
  then have "(1 :: rat) \<le> of_nat n" by simp
  then have low: "(1 :: rat) / 10 \<le> of_nat n / 10" by simp
  have "(of_nat n :: rat) < 2 ^ 53"
    using assms by (metis of_nat_less_iff of_nat_numeral of_nat_power)
  then have high: "(of_nat n :: rat) / 10 < 2 ^ 53" by simp
  have "(2 :: rat) ^ 53 \<le> 2 ^ 1024 - 2 ^ 970" by simp
  moreover have "(1 :: rat) / 2 ^ 1075 < 1 / 10" by simp
  ultimately show ?thesis using low high by (simp add: binary64_def)
qed

lemma isDigit_not:
  assumes "isDigit c"
  shows "\<not> isWhiteSpace c" "c \<noteq> CHR ''-''" "c \<noteq> CHR ''+''" "c \<noteq> CHR ''.''"
    "c \<noteq> CHR ''x''" "c \<noteq> CHR ''X''" "c \<noteq> CHR ''o''" "c \<noteq> CHR ''O''"
    "c \<noteq> CHR ''b''" "c \<noteq> CHR ''B''" "c \<noteq> CHR ''I''" "c \<noteq> CHR ''e''" "c \<noteq> CHR ''E''"
  using assms by (auto simp add: isDigit_def isWhiteSpace_def code_unit_def)

lemma digits_takeWhile:
  "list_all isDigit ds \<Longrightarrow> takeWhile isDigit ds = ds \<and> dropWhile isDigit ds = []"
  by (simp add: list_all_iff)

lemma digits_no_space:
  "list_all isDigit ds \<Longrightarrow> dropWhile isWhiteSpace ds = ds"
  by (cases ds) (simp_all add: isDigit_not)

lemma digits_trim: "list_all isDigit ds \<Longrightarrow> trim ds = ds"
proof -
  assume d: "list_all isDigit ds"
  then have "list_all isDigit (rev ds)" by (simp add: list_all_iff)
  then have "dropWhile isWhiteSpace (rev ds) = rev ds" by (rule digits_no_space)
  with d show ?thesis by (simp add: trim_def digits_no_space)
qed

lemma digits_take1:
  assumes "ds \<noteq> []" and "list_all isDigit ds"
  shows "take 1 ds \<noteq> ''-''" "take 1 ds \<noteq> ''+''"
  using assms by (cases ds; simp add: isDigit_not)+

lemma digits_take2:
  assumes "list_all isDigit ds"
  shows "take 2 ds \<noteq> ''0x''" "take 2 ds \<noteq> ''0X''" "take 2 ds \<noteq> ''0o''" "take 2 ds \<noteq> ''0O''"
    "take 2 ds \<noteq> ''0b''" "take 2 ds \<noteq> ''0B''"
  using assms by (cases ds; cases "tl ds"; auto simp add: isDigit_not)+

lemma digits_take8:
  assumes "ds \<noteq> []" and "list_all isDigit ds"
  shows "take 8 ds \<noteq> ''Infinity''"
  using assms by (cases ds) (auto simp add: isDigit_not)

lemma parseInt_digits:
  assumes "ds \<noteq> []" and "list_all isDigit ds" and "radixValue 10 ds < 2 ^ 53"
  shows "parseInt ds = Finite (of_nat (radixValue 10 ds))"
  using assms
  by (simp add: parseInt_def Let_def digits_no_space digits_take1 digits_take2 digits_takeWhile
      binary64_nat del: One_nat_def)

lemma scanDecimal_digits:
  assumes "ds \<noteq> []" and "list_all isDigit ds" and "radixValue 10 ds < 2 ^ 53"
  shows "scanDecimal ds = Some (Finite (of_nat (radixValue 10 ds)), [])"
  using assms
  by (simp add: scanDecimal_def scanExponent_def Let_def digits_take1 digits_take8
      digits_takeWhile binary64_nat del: One_nat_def)

lemma StringToNumber_digits:
  assumes "ds \<noteq> []" and "list_all isDigit ds" and "radixValue 10 ds < 2 ^ 53"
  shows "StringToNumber ds = Finite (of_nat (radixValue 10 ds))"
  using assms
  by (simp add: StringToNumber_def nonDecimal_def Let_def digits_trim digits_take2
      scanDecimal_digits del: One_nat_def)

subsection \<open>The detail stage\<close>

lemma fetch_details_calls:
  "snd (fetch_details key omdb item calls) = calls @ [[(''apikey'', val key), (''i'', val item)]]"
  by (simp add: fetch_details_def fetchFromOMDB_def Let_def split: reply.split)

lemma map_details_calls:
  "snd (map_details key omdb items calls) =
     calls @ map (\<lambda>item. [(''apikey'', val key), (''i'', val item)]) items"
proof (induction items arbitrary: calls)
  case Nil
  show ?case by simp
next
  case (Cons item items)
  have "snd (map_details key omdb (item # items) calls) =
          snd (map_details key omdb items (snd (fetch_details key omdb item calls)))"
    by (simp add: split_beta Let_def)
  then show ?case
    by (simp add: Cons.IH fetch_details_calls)
qed

lemma map_details_length:
  "length (fst (map_details key omdb items calls)) = length items"
  by (induction items arbitrary: calls) (simp_all add: split_beta Let_def)

text \<open>
  C4: a search with a query that is not empty, an API key and an answer of the provider
  whose \<^verbatim>\<open>totalResults\<close> is a string of decimal digits (a count below \<open>2 ^ 53\<close>,
  where a number holds it exactly). The requests sent are the search and then one detail
  request for each of the first 8 hits, in their order, and no other; \<^verbatim>\<open>totalPages\<close>
  is the count divided by 10 and rounded up, \<^verbatim>\<open>totalResults\<close> is the count, whatever
  the movies returned, of which there are at most 8.
\<close>

theorem search_detail_cap_and_pages:
  assumes q: "truthy (val (query req))"
    and k: "truthy (val OMDB_API_KEY)" "OMDB_API_KEY \<noteq> Some ''your-omdb-api-key''"
    and r: "omdb 0 [(''apikey'', val OMDB_API_KEY), (''s'', val (query req)),
              (''type'', JString ''movie''),
              (''page'', or_else (val (page req)) (JNumber (Finite 1)))] = Resolved searchData"
    and ok: "Response searchData \<noteq> Some ''False''"
    and total: "totalResults searchData = Some ds" "ds \<noteq> []" "list_all isDigit ds"
      "radixValue 10 ds < 2 ^ 53"
  shows "snd (search OMDB_API_KEY omdb req) =
           [(''apikey'', val OMDB_API_KEY), (''s'', val (query req)),
            (''type'', JString ''movie''),
            (''page'', or_else (val (page req)) (JNumber (Finite 1)))] #
           map (\<lambda>item. [(''apikey'', val OMDB_API_KEY), (''i'', val item)])
             (case Search searchData of None \<Rightarrow> [] | Some hits \<Rightarrow> take 8 hits) \<and>
         (\<exists>movies. length movies \<le> 8 \<and>
            fst (search OMDB_API_KEY omdb req) =
              \<lparr> status = 200, success = True,
                payload = Listing
                  (or_else (JNumber (parseInt (ToString (page req)))) (JNumber (Finite 1)))
                  (JNumber (Finite (of_int \<lceil>of_nat (radixValue 10 ds) / (10 :: rat)\<rceil>)))
                  (JNumber (Finite (of_nat (radixValue 10 ds))))
                  movies \<rparr>)"
proof -
  let ?request = "[(''apikey'', val OMDB_API_KEY), (''s'', val (query req)),
            (''type'', JString ''movie''),
            (''page'', or_else (val (page req)) (JNumber (Finite 1)))]"
  have f: "fetchFromOMDB OMDB_API_KEY omdb
             [(''s'', val (query req)), (''type'', JString ''movie''),
              (''page'', or_else (val (page req)) (JNumber (Finite 1)))] [] =
           (Inr searchData, [?request])"
    using r ok by (simp add: fetchFromOMDB_def)
  have pages: "Math_ceil (divide10 (ToNumber
                 (or_else (val (totalResults searchData)) (JNumber (Finite 0))))) =
               Finite (of_int \<lceil>of_nat (radixValue 10 ds) / (10 :: rat)\<rceil>)"
    using total
    by (simp add: val_def or_else_def StringToNumber_digits divide10_def Math_ceil_def
        binary64_tenth)
  have results: "or_else (JNumber (parseInt (ToString (totalResults searchData))))
                   (JNumber (Finite 0)) = JNumber (Finite (of_nat (radixValue 10 ds)))"
    using total by (simp add: ToString_def parseInt_digits or_else_def)
  show ?thesis
  proof (cases "Search searchData")
    case None
    then show ?thesis
      using q k f pages results by (simp add: search_def)
  next
    case (Some hits)
    have "length (filter (\<lambda>movie. movie \<noteq> Null)
            (fst (map_details OMDB_API_KEY omdb (take 8 hits) [?request]))) \<le> 8"
      by (rule order_trans [OF length_filter_le]) (simp add: map_details_length)
    then show ?thesis
      using q k f pages results Some
      by (simp add: search_def split_beta Let_def map_details_calls)
  qed
qed

text \<open>
  The theorem at a provider that reports 1234 results and returns twelve hits: nine
  requests, 124 pages.
\<close>

theorem search_detail_cap_and_pages_witness:
  "snd (search (Some ''k'') twelve_hits \<lparr> query = Some ''bat'', page = None \<rparr>) =
     [(''apikey'', JString ''k''), (''s'', JString ''bat''), (''type'', JString ''movie''),
      (''page'', JNumber (Finite 1))] #
     map (\<lambda>item. [(''apikey'', JString ''k''), (''i'', JString item)])
       [''tt0'', ''tt1'', ''tt2'', ''tt3'', ''tt4'', ''tt5'', ''tt6'', ''tt7''] \<and>
   (\<exists>movies. length movies \<le> 8 \<and>
      fst (search (Some ''k'') twelve_hits \<lparr> query = Some ''bat'', page = None \<rparr>) =
        \<lparr> status = 200, success = True,
          payload = Listing (JNumber (Finite 1)) (JNumber (Finite 124)) (JNumber (Finite 1234))
            movies \<rparr>)"
proof -
  let ?req = "\<lparr> query = Some ''bat'', page = None \<rparr>"
  let ?data = "blank\<lparr> Response := Some ''True'',
          Search := Some (map (\<lambda>c. Some [CHR ''t'', CHR ''t'', c]) ''0123456789ab''),
          totalResults := Some ''1234'' \<rparr>"
  have q: "truthy (val (query ?req))" by (simp add: val_def)
  have k: "truthy (val (Some ''k''))" "Some ''k'' \<noteq> Some ''your-omdb-api-key''"
    by (simp_all add: val_def)
  have r: "twelve_hits 0 [(''apikey'', val (Some ''k'')), (''s'', val (query ?req)),
              (''type'', JString ''movie''),
              (''page'', or_else (val (page ?req)) (JNumber (Finite 1)))] = Resolved ?data"
    by (simp add: twelve_hits_def)
  have ok: "Response ?data \<noteq> Some ''False''" by simp
  have total: "totalResults ?data = Some ''1234''" "''1234'' \<noteq> []" "list_all isDigit ''1234''"
    "radixValue 10 ''1234'' < 2 ^ 53"
    by (simp_all add: isDigit_def code_unit_def radixValue_def digitValue_def)
  have v: "radixValue 10 ''1234'' = 1234"
    by (simp add: isDigit_def code_unit_def radixValue_def digitValue_def)
  have c: "\<lceil>617 / (5 :: rat)\<rceil> = 124"
    by (rule ceiling_unique) simp_all
  have p: "parseInt (ToString None) = NaN"
    by (simp add: ToString_def parseInt_def isWhiteSpace_def isDigit_def code_unit_def)
  show ?thesis
    using search_detail_cap_and_pages
      [where omdb = twelve_hits and req = ?req and OMDB_API_KEY = "Some ''k''"
         and searchData = ?data and ds = "''1234''", OF q k r ok total]
    by (simp add: v c p val_def or_else_def)
qed

section \<open>Registration and login\<close>

text \<open>On strings the two checks of the registration are the regular expression and the length.\<close>

lemma emailRegex_test_value_string:
  "emailRegex_test_value other (JsonString e) = Some (emailRegex_test e)"
  by (simp add: emailRegex_test_value_def)

lemma length_less_than_string:
  "length_less_than other (JsonString p) 6 = Some (length p < 6)"
proof -
  have "(of_nat (length p) < (6 :: rat)) = (length p < 6)"
    by (metis of_nat_less_iff of_nat_numeral)
  then show ?thesis
    by (simp add: length_less_than_def length_property_def less_than_def number_less_def)
qed




text \<open>
  C7: a registration whose fields pass the checks, the email a string, on a store that
  answers the lookup. When a row has the email, the response is 409, the lookup is the
  only statement sent and the table and its counter are as before. When no row has it,
  the password is a string and the store accepts the insert, the response is 201 with
  the \<^verbatim>\<open>userId\<close> that the store gave to the new row.
\<close>

theorem register_conflict_and_created:
  assumes "truthy_json (username req)" and "email req = JsonString e" and "e \<noteq> []"
    and "emailRegex_test e" and "truthy_json (password req)"
    and "length_less_than (fraction_text l) (password req) 6 = Some False"
    and "take 1 (faults d) \<noteq> [True]"
  shows "(matching l d (email req) \<noteq> [] \<longrightarrow>
            fst (register l d (Some req)) =
              \<lparr> status = 409, success = False, payload = Message ''Email already registered'' \<rparr> \<and>
            users_table (snd (register l d (Some req))) = users_table d \<and>
            auto_increment (snd (register l d (Some req))) = auto_increment d \<and>
            statements (snd (register l d (Some req))) = statements d @ [SelectIdByEmail (email req)]) \<and>
         (matching l d (email req) = [] \<and> take 1 (drop 1 (faults d)) \<noteq> [True] \<and>
          password req = JsonString p \<longrightarrow>
            fst (register l d (Some req)) =
              \<lparr> status = 201, success = True,
                payload = Registered ''User registered successfully'' (auto_increment d) \<rparr> \<and>
            users_table (snd (register l d (Some req))) = users_table d @
              [\<lparr> row_id = auto_increment d, row_username = to_column l (username req),
                 row_email = e, row_password = bcrypt_hash l p SALT_ROUNDS,
                 row_phone = to_phone l (if truthy_json (phone req) then phone req else JsonNull) \<rparr>])"
proof (rule conjI; rule impI)
  assume "matching l d (email req) \<noteq> []"
  with assms show
    "fst (register l d (Some req)) =
       \<lparr> status = 409, success = False, payload = Message ''Email already registered'' \<rparr> \<and>
     users_table (snd (register l d (Some req))) = users_table d \<and>
     auto_increment (snd (register l d (Some req))) = auto_increment d \<and>
     statements (snd (register l d (Some req))) = statements d @ [SelectIdByEmail (email req)]"
    by (simp add: register_def select_id_by_email_def issue_def failure_def
        emailRegex_test_value_string)
next
  assume a: "matching l d (email req) = [] \<and> take 1 (drop 1 (faults d)) \<noteq> [True] \<and>
    password req = JsonString p"
  then have short: "length_less_than (fraction_text l) (JsonString p) 6 = Some False"
    using assms(6) by simp
  have ins: "insert_user l
      (d\<lparr> statements := statements d @ [SelectIdByEmail (JsonString e)],
         faults := drop 1 (faults d) \<rparr>)
      (username req) (JsonString e) (bcrypt_hash l p SALT_ROUNDS)
      (if truthy_json (phone req) then phone req else JsonNull) =
    (Some (auto_increment d),
     d\<lparr> statements := statements d @ [SelectIdByEmail (JsonString e),
          InsertUser (username req) (JsonString e) (bcrypt_hash l p SALT_ROUNDS)
            (if truthy_json (phone req) then phone req else JsonNull)],
        faults := drop 1 (drop 1 (faults d)),
        users_table := users_table d @
          [\<lparr> row_id = auto_increment d, row_username = to_column l (username req),
             row_email = e, row_password = bcrypt_hash l p SALT_ROUNDS,
             row_phone = to_phone l (if truthy_json (phone req) then phone req else JsonNull) \<rparr>],
        auto_increment := Suc (auto_increment d) \<rparr>)"
    using a assms(2)
    by (simp add: insert_user_def issue_def matching_def to_column_def del: One_nat_def)
  have sel: "select_id_by_email l d (JsonString e) =
    (Some [], d\<lparr> statements := statements d @ [SelectIdByEmail (JsonString e)],
         faults := drop 1 (faults d) \<rparr>)"
    using a assms(2) assms(7) by (simp add: select_id_by_email_def issue_def)
  have "register l d (Some req) =
    (\<lparr> status = 201, success = True,
       payload = Registered ''User registered successfully'' (auto_increment d) \<rparr>,
     d\<lparr> statements := statements d @ [SelectIdByEmail (JsonString e),
          InsertUser (username req) (JsonString e) (bcrypt_hash l p SALT_ROUNDS)
            (if truthy_json (phone req) then phone req else JsonNull)],
        faults := drop 1 (drop 1 (faults d)),
        users_table := users_table d @
          [\<lparr> row_id = auto_increment d, row_username = to_column l (username req),
             row_email = e, row_password = bcrypt_hash l p SALT_ROUNDS,
             row_phone = to_phone l (if truthy_json (phone req) then phone req else JsonNull) \<rparr>],
        auto_increment := Suc (auto_increment d) \<rparr>)"
    using assms(1-5) a short
    by (simp add: register_def emailRegex_test_value_string sel hash_password_def ins
        del: One_nat_def)
  then show
    "fst (register l d (Some req)) =
       \<lparr> status = 201, success = True,
         payload = Registered ''User registered successfully'' (auto_increment d) \<rparr> \<and>
     users_table (snd (register l d (Some req))) = users_table d @
       [\<lparr> row_id = auto_increment d, row_username = to_column l (username req),
          row_email = e, row_password = bcrypt_hash l p SALT_ROUNDS,
          row_phone = to_phone l (if truthy_json (phone req) then phone req else JsonNull) \<rparr>]"
    by simp
qed

text \<open>
  The theorem at the same request twice: on the empty store it creates the account with
  the id 1, on the store that has the account it is a conflict.
\<close>

theorem register_conflict_and_created_witness:
  "fst (register example_libs empty_db (Some ann)) =
     \<lparr> status = 201, success = True, payload = Registered ''User registered successfully'' 1 \<rparr> \<and>
   users_table (snd (register example_libs empty_db (Some ann))) = users_table db_with_ann \<and>
   fst (register example_libs db_with_ann (Some ann)) =
     \<lparr> status = 409, success = False, payload = Message ''Email already registered'' \<rparr> \<and>
   users_table (snd (register example_libs db_with_ann (Some ann))) = users_table db_with_ann \<and>
   statements (snd (register example_libs db_with_ann (Some ann))) =
     [SelectIdByEmail (JsonString ''ann@x.org'')]"
proof -
  have v: "truthy_json (username ann)" "email ann = JsonString ''ann@x.org''" "''ann@x.org'' \<noteq> []"
    "emailRegex_test ''ann@x.org''" "truthy_json (password ann)"
    "length_less_than (fraction_text example_libs) (password ann) 6 = Some False"
    by (simp_all add: ann_def emailRegex_test_def notSpaceOrAt_def isWhiteSpace_def
        code_unit_def length_less_than_string)
  have f: "take 1 (faults empty_db) \<noteq> [True]" "take 1 (faults db_with_ann) \<noteq> [True]"
    "take 1 (drop 1 (faults empty_db)) \<noteq> [True]"
    by (simp_all add: empty_db_def db_with_ann_def)
  have m: "matching example_libs empty_db (email ann) = []"
    "matching example_libs db_with_ann (email ann) \<noteq> []"
    by (simp_all add: matching_def empty_db_def db_with_ann_def example_libs_def ann_def)
  have p: "password ann = JsonString ''secret1''"
    by (simp add: ann_def)
  show ?thesis
    using register_conflict_and_created [OF v f(1), of "''secret1''"]
      register_conflict_and_created [OF v f(2), of "''secret1''"] f(3) m p
    by (simp add: empty_db_def db_with_ann_def example_libs_def ann_def to_column_def
        to_phone_def SALT_ROUNDS_def)
qed




text \<open>
  C10: a login whose \<^verbatim>\<open>email\<close> or \<^verbatim>\<open>password\<close> is the empty string is answered with
  status 400 and the message \<^verbatim>\<open>Email and password are required\<close>, and the store is as
  before: no statement reached it.
\<close>

theorem login_empty_credentials:
  "email req = JsonString '''' \<or> password req = JsonString '''' \<Longrightarrow>
   login l d (Some req) =
     (\<lparr> status = 400, success = False, payload = Message ''Email and password are required'' \<rparr>,
      d)"
  by (auto simp add: login_def failure_def)

text \<open>The theorem at an empty password for an email that has a row.\<close>

theorem login_empty_credentials_witness:
  "(email (ann\<lparr> password := JsonString '''' \<rparr>) = JsonString '''' \<or>
    password (ann\<lparr> password := JsonString '''' \<rparr>) = JsonString '''') \<and>
   login example_libs db_with_ann (Some (ann\<lparr> password := JsonString '''' \<rparr>)) =
     (\<lparr> status = 400, success = False, payload = Message ''Email and password are required'' \<rparr>,
      db_with_ann)"
  using login_empty_credentials
    [of "ann\<lparr> password := JsonString '''' \<rparr>" example_libs db_with_ann]
  by (simp add: ann_def)

end
